theory Spec2Isabelle
  imports Complex_Main
begin

section \<open>Values of the station feed\<close>

text \<open>
  The feed is parsed JSON, so every field of a station is a dynamically typed
  JavaScript value. The model keeps the scalar values a bound or a display field
  can hold: \<open>JUndefined\<close> is what reading a missing property gives, \<open>JNull\<close> is
  JSON's null. Numbers are the integers of the data model (years, counts); a
  double with an integer value compares as that integer does. Strings are ASCII
  text.
\<close>

datatype jsval = JUndefined | JNull | JBool bool | JNum int | JStr string

record station =
  station_id :: jsval
  name :: jsval
  country :: jsval
  begin_year :: jsval
  end_year :: jsval

text \<open>The \<^verbatim>\<open>typeof\<close> operator on these values.\<close>

fun typeof :: "jsval \<Rightarrow> string" where
  "typeof JUndefined = ''undefined''"
| "typeof JNull = ''object''"
| "typeof (JBool b) = ''boolean''"
| "typeof (JNum n) = ''number''"
| "typeof (JStr s) = ''string''"

text \<open>Truthiness, as \<^verbatim>\<open>!v\<close> and \<^verbatim>\<open>v || d\<close> test it.\<close>

fun truthy :: "jsval \<Rightarrow> bool" where
  "truthy JUndefined = False"
| "truthy JNull = False"
| "truthy (JBool b) = b"
| "truthy (JNum n) = (n \<noteq> 0)"
| "truthy (JStr s) = (s \<noteq> [])"

text \<open>\<^verbatim>\<open>v ?? d\<close>: only null and undefined give way to the default.\<close>

fun nullish :: "jsval \<Rightarrow> bool" where
  "nullish JUndefined = True"
| "nullish JNull = True"
| "nullish v = False"

definition coalesce :: "jsval \<Rightarrow> jsval \<Rightarrow> jsval" where
  "coalesce v d = (if nullish v then d else v)"

section \<open>Strings\<close>

text \<open>
  \<^verbatim>\<open>String.prototype.trim\<close> removes white space and line terminators from both
  ends; in ASCII these are TAB, LF, VT, FF, CR and the space.
\<close>

definition isStrWhiteSpaceChar :: "char \<Rightarrow> bool" where
  "isStrWhiteSpaceChar c =
     (c \<in> set [CHR 0x09, CHR 0x0A, CHR 0x0B, CHR 0x0C, CHR 0x0D, CHR '' ''])"

definition trim :: "string \<Rightarrow> string" where
  "trim s = rev (dropWhile isStrWhiteSpaceChar (rev (dropWhile isStrWhiteSpaceChar s)))"

definition toLowerChar :: "char \<Rightarrow> char" where
  "toLowerChar c =
     (case map_of (zip ''ABCDEFGHIJKLMNOPQRSTUVWXYZ'' ''abcdefghijklmnopqrstuvwxyz'') c of
        Some d \<Rightarrow> d
      | None \<Rightarrow> c)"

definition toLowerCase :: "string \<Rightarrow> string" where
  "toLowerCase s = map toLowerChar s"

text \<open>\<^verbatim>\<open>s.includes(q)\<close>: \<open>q\<close> occurs in \<open>s\<close> as a contiguous run.\<close>

fun startsWith :: "string \<Rightarrow> string \<Rightarrow> bool" where
  "startsWith s [] = True"
| "startsWith [] (d # q) = False"
| "startsWith (c # s) (d # q) = (c = d \<and> startsWith s q)"

fun includes_str :: "string \<Rightarrow> string \<Rightarrow> bool" where
  "includes_str [] q = (q = [])"
| "includes_str (c # s) q = (startsWith (c # s) q \<or> includes_str s q)"

section \<open>Conversion to a number\<close>

text \<open>
  The relational operators convert a non-number operand with ToNumber when the
  other operand is a number. The result is a number value: not-a-number, an
  infinity, or a finite value, kept exact here (the rounding of doubles is not
  modelled).
\<close>

datatype jsnum = NaN | NegInf | PosInf | Fin rat

fun jsnum_neg :: "jsnum \<Rightarrow> jsnum" where
  "jsnum_neg NaN = NaN"
| "jsnum_neg NegInf = PosInf"
| "jsnum_neg PosInf = NegInf"
| "jsnum_neg (Fin x) = Fin (- x)"

text \<open>\<^verbatim>\<open>a <= b\<close> on number values: false as soon as one side is NaN.\<close>

fun jsnum_le :: "jsnum \<Rightarrow> jsnum \<Rightarrow> bool" where
  "jsnum_le NaN b = False"
| "jsnum_le a NaN = False"
| "jsnum_le NegInf b = True"
| "jsnum_le a PosInf = True"
| "jsnum_le PosInf b = False"
| "jsnum_le a NegInf = False"
| "jsnum_le (Fin x) (Fin y) = (x \<le> y)"

definition isDecimalDigit :: "char \<Rightarrow> bool" where
  "isDecimalDigit c = (c \<in> set ''0123456789'')"

definition digitValue :: "char \<Rightarrow> nat" where
  "digitValue c =
     (case map_of (zip ''0123456789abcdef'' [0, 1, 2, 3, 4, 5, 6, 7, 8, 9, 10, 11, 12, 13, 14, 15])
             (toLowerChar c) of
        Some v \<Rightarrow> v
      | None \<Rightarrow> 0)"

definition isDigitOfBase :: "nat \<Rightarrow> char \<Rightarrow> bool" where
  "isDigitOfBase b c = (toLowerChar c \<in> set (take b ''0123456789abcdef''))"

definition digitsValue :: "nat \<Rightarrow> string \<Rightarrow> nat" where
  "digitsValue b ds = foldl (\<lambda>a c. a * b + digitValue c) 0 ds"

definition parseDigits :: "string \<Rightarrow> int option" where
  "parseDigits s =
     (if s = [] then None
      else if list_all isDecimalDigit s then Some (int (digitsValue 10 s))
      else None)"

definition parseSignedInteger :: "string \<Rightarrow> int option" where
  "parseSignedInteger s =
     (case s of
        [] \<Rightarrow> None
      | c # t \<Rightarrow>
          if c = CHR ''+'' then parseDigits t
          else if c = CHR ''-'' then map_option uminus (parseDigits t)
          else parseDigits s)"

text \<open>The optional exponent part; \<open>None\<close> when what follows the mantissa is no exponent.\<close>

definition parseExponent :: "string \<Rightarrow> int option" where
  "parseExponent s =
     (case s of
        [] \<Rightarrow> Some 0
      | c # t \<Rightarrow> if c = CHR ''e'' \<or> c = CHR ''E'' then parseSignedInteger t else None)"

definition scale10 :: "nat \<Rightarrow> int \<Rightarrow> rat" where
  "scale10 m e = (if 0 \<le> e then of_nat m * 10 ^ nat e else of_nat m / 10 ^ nat (- e))"

definition parseUnsignedDecimal :: "string \<Rightarrow> jsnum" where
  "parseUnsignedDecimal s =
     (if s = ''Infinity'' then PosInf
      else
        let ip = takeWhile isDecimalDigit s;
            r = dropWhile isDecimalDigit s;
            dot = (case r of [] \<Rightarrow> False | c # t \<Rightarrow> c = CHR ''.'');
            fp = (if dot then takeWhile isDecimalDigit (tl r) else []);
            r2 = (if dot then dropWhile isDecimalDigit (tl r) else r)
        in if ip = [] \<and> fp = [] then NaN
           else (case parseExponent r2 of
                   None \<Rightarrow> NaN
                 | Some e \<Rightarrow> Fin (scale10 (digitsValue 10 (ip @ fp)) (e - int (length fp)))))"

definition parseDecimal :: "string \<Rightarrow> jsnum" where
  "parseDecimal s =
     (case s of
        [] \<Rightarrow> NaN
      | c # t \<Rightarrow>
          if c = CHR ''+'' then parseUnsignedDecimal t
          else if c = CHR ''-'' then jsnum_neg (parseUnsignedDecimal t)
          else parseUnsignedDecimal s)"

text \<open>Hexadecimal, octal and binary integer literals: a prefix, then digits, no sign.\<close>

definition parseNonDecimal :: "string \<Rightarrow> jsnum option" where
  "parseNonDecimal s =
     (case s of
        z # p # ds \<Rightarrow>
          if z = CHR ''0'' \<and> ds \<noteq> [] then
            (let b = (if toLowerChar p = CHR ''x'' then 16
                      else if toLowerChar p = CHR ''o'' then 8
                      else if toLowerChar p = CHR ''b'' then 2 else (0::nat))
             in if b = 0 then None
                else if list_all (isDigitOfBase b) ds then Some (Fin (of_nat (digitsValue b ds)))
                else Some NaN)
          else None
      | _ \<Rightarrow> None)"

definition StringToNumber :: "string \<Rightarrow> jsnum" where
  "StringToNumber s =
     (let t = trim s
      in if t = [] then Fin 0
         else (case parseNonDecimal t of Some v \<Rightarrow> v | None \<Rightarrow> parseDecimal t))"

fun ToNumber :: "jsval \<Rightarrow> jsnum" where
  "ToNumber JUndefined = NaN"
| "ToNumber JNull = Fin 0"
| "ToNumber (JBool b) = Fin (if b then 1 else 0)"
| "ToNumber (JNum n) = Fin (of_int n)"
| "ToNumber (JStr s) = StringToNumber s"

section \<open>Status classifier\<close>

text \<open>
  \<^verbatim>\<open>isActive\<close> of \<^verbatim>\<open>src/App.jsx\<close>: a bound whose type is not number is
  replaced by the sentinel, then both comparisons are between numbers.
\<close>

definition isActive :: "station \<Rightarrow> int \<Rightarrow> bool" where
  "isActive st year =
     (let by = (if typeof (begin_year st) = ''number'' then begin_year st else JNum (- 9999));
          ey = (if typeof (end_year st) = ''number'' then end_year st else JNum 9999)
      in jsnum_le (ToNumber by) (ToNumber (JNum year))
         \<and> jsnum_le (ToNumber (JNum year)) (ToNumber ey))"

text \<open>
  \<^verbatim>\<open>isActive\<close> of the other revision of the file (\<^verbatim>\<open>part_000\<close>): only null
  and undefined give way to the sentinel; any other value is compared as it is,
  which converts it to a number.
\<close>

definition isActive_part_000 :: "station \<Rightarrow> int \<Rightarrow> bool" where
  "isActive_part_000 st year =
     (let by = coalesce (begin_year st) (JNum (- 9999));
          ey = coalesce (end_year st) (JNum 9999)
      in jsnum_le (ToNumber by) (ToNumber (JNum year))
         \<and> jsnum_le (ToNumber (JNum year)) (ToNumber ey))"

section \<open>Collection filter\<close>

text \<open>
  Calling \<^verbatim>\<open>toLowerCase\<close> on a value that is not a string raises a TypeError
  (the property is undefined on numbers and booleans, and calling it fails).
\<close>

datatype error = TypeError

text \<open>\<^verbatim>\<open>(v || "").toLowerCase()\<close>: a falsy field reads as the empty string.\<close>

definition lowerField :: "jsval \<Rightarrow> error + string" where
  "lowerField v =
     (case (if truthy v then v else JStr []) of
        JStr s \<Rightarrow> Inr (toLowerCase s)
      | _ \<Rightarrow> Inl TypeError)"

text \<open>
  \<^verbatim>\<open>Array.prototype.filter\<close> with a callback that may throw: the elements are
  visited in order and the first exception ends the call.
\<close>

fun filter_js :: "('a \<Rightarrow> error + bool) \<Rightarrow> 'a list \<Rightarrow> error + 'a list" where
  "filter_js p [] = Inr []"
| "filter_js p (x # xs) =
     (case p x of
        Inl e \<Rightarrow> Inl e
      | Inr b \<Rightarrow>
          (case filter_js p xs of
             Inl e \<Rightarrow> Inl e
           | Inr ys \<Rightarrow> Inr (if b then x # ys else ys)))"

text \<open>
  The callback of \<^verbatim>\<open>filtered\<close> in \<^verbatim>\<open>src/App.jsx\<close>: the three folded fields
  are computed first, then \<^verbatim>\<open>searchBy\<close> selects the comparison; any other
  value of \<^verbatim>\<open>searchBy\<close> compares all three.
\<close>

definition matches :: "string \<Rightarrow> string \<Rightarrow> station \<Rightarrow> error + bool" where
  "matches qq searchBy s =
     (case lowerField (station_id s) of
        Inl e \<Rightarrow> Inl e
      | Inr station' \<Rightarrow>
     (case lowerField (name s) of
        Inl e \<Rightarrow> Inl e
      | Inr name' \<Rightarrow>
     (case lowerField (country s) of
        Inl e \<Rightarrow> Inl e
      | Inr country' \<Rightarrow>
          Inr (if searchBy = ''station'' then includes_str station' qq
               else if searchBy = ''name'' then includes_str name' qq
               else if searchBy = ''country'' then includes_str country' qq
               else includes_str station' qq \<or> includes_str name' qq
                    \<or> includes_str country' qq))))"

definition filtered :: "station list \<Rightarrow> string \<Rightarrow> string \<Rightarrow> error + station list" where
  "filtered stations q searchBy =
     (let qq = toLowerCase (trim q)
      in if qq = [] then Inr stations
         else filter_js (matches qq searchBy) stations)"

text \<open>
  The revision in part_000 has no scope: the callback answers true for an empty
  query and otherwise tries the three fields in turn, stopping at the first
  that matches.
\<close>

definition matches_part_000 :: "string \<Rightarrow> station \<Rightarrow> error + bool" where
  "matches_part_000 qq s =
     (if qq = [] then Inr True
      else
     (case lowerField (station_id s) of
        Inl e \<Rightarrow> Inl e
      | Inr station' \<Rightarrow>
          if includes_str station' qq then Inr True
          else
     (case lowerField (name s) of
        Inl e \<Rightarrow> Inl e
      | Inr name' \<Rightarrow>
          if includes_str name' qq then Inr True
          else
     (case lowerField (country s) of
        Inl e \<Rightarrow> Inl e
      | Inr country' \<Rightarrow> Inr (includes_str country' qq)))))"

definition filtered_part_000 :: "station list \<Rightarrow> string \<Rightarrow> error + station list" where
  "filtered_part_000 stations q =
     (let qq = toLowerCase (trim q)
      in filter_js (matches_part_000 qq) stations)"

section \<open>Active stations of a year\<close>

text \<open>
  \<^verbatim>\<open>activeCountForYear\<close> repeats the comparison of \<^verbatim>\<open>isActive\<close> inline, with
  the same test on the type of each bound.
\<close>

fun activeCountForYear_loop :: "station list \<Rightarrow> int \<Rightarrow> int \<Rightarrow> int" where
  "activeCountForYear_loop [] year active = active"
| "activeCountForYear_loop (s # ss) year active =
     (let by = (if typeof (begin_year s) = ''number'' then begin_year s else JNum (- 9999));
          ey = (if typeof (end_year s) = ''number'' then end_year s else JNum 9999)
      in activeCountForYear_loop ss year
           (if jsnum_le (ToNumber by) (ToNumber (JNum year))
               \<and> jsnum_le (ToNumber (JNum year)) (ToNumber ey)
            then active + 1 else active))"

definition activeCountForYear :: "station list \<Rightarrow> int \<Rightarrow> int" where
  "activeCountForYear stations year = activeCountForYear_loop stations year 0"

section \<open>Counts for the selected year\<close>

record counts =
  active :: int
  inactive :: int
  total :: int

text \<open>The loop \<^verbatim>\<open>for (const s of filtered) if (isActive(s, year)) a++\<close>.\<close>

fun count_loop :: "(station \<Rightarrow> bool) \<Rightarrow> station list \<Rightarrow> int \<Rightarrow> int" where
  "count_loop p [] a = a"
| "count_loop p (s # ss) a = count_loop p ss (if p s then a + 1 else a)"

text \<open>
  The selected year is a number or absent (\<open>None\<close>); \<^verbatim>\<open>!year\<close> holds when it
  is absent and when it is the number 0, so the loop below only runs with a
  number.
\<close>

definition falsy_year :: "int option \<Rightarrow> bool" where
  "falsy_year year = (case year of None \<Rightarrow> True | Some y \<Rightarrow> y = 0)"

definition counts_with ::
  "(station \<Rightarrow> int \<Rightarrow> bool) \<Rightarrow> station list \<Rightarrow> int option \<Rightarrow> counts" where
  "counts_with is_active fs year =
     (if length fs = 0 \<or> falsy_year year
      then \<lparr>active = 0, inactive = 0, total = int (length fs)\<rparr>
      else
        (case year of
           Some y \<Rightarrow>
             let a = count_loop (\<lambda>s. is_active s y) fs 0
             in \<lparr>active = a, inactive = int (length fs) - a, total = int (length fs)\<rparr>
         | None \<Rightarrow> \<lparr>active = 0, inactive = 0, total = int (length fs)\<rparr>))"

text \<open>\<^verbatim>\<open>counts\<close> of \<^verbatim>\<open>src/App.jsx\<close> and of the revision in part_000.\<close>

definition counts :: "station list \<Rightarrow> int option \<Rightarrow> counts" where
  "counts fs year = counts_with isActive fs year"

definition counts_part_000 :: "station list \<Rightarrow> int option \<Rightarrow> counts" where
  "counts_part_000 fs year = counts_with isActive_part_000 fs year"

section \<open>Aggregator\<close>

record series_entry = counts +
  year :: int

text \<open>
  The loop \<^verbatim>\<open>for (let y = startYear; y <= endYear; y++)\<close>, pushing one entry
  onto \<^verbatim>\<open>series\<close> per year.
\<close>

function series_loop ::
  "station list \<Rightarrow> int \<Rightarrow> int \<Rightarrow> int \<Rightarrow> series_entry list \<Rightarrow> series_entry list" where
  "series_loop stations total' y endYear series =
     (if y \<le> endYear then
        (let active' = activeCountForYear stations y
         in series_loop stations total' (y + 1) endYear
              (series @
               [\<lparr>active = active', inactive = total' - active', total = total', year = y\<rparr>]))
      else series)"
  by pat_completeness auto
termination
  by (relation "measure (\<lambda>(stations, total', y, endYear, series). nat (endYear + 1 - y))") auto

declare series_loop.simps [simp del]

text \<open>
  \<^verbatim>\<open>stationActivitySeries\<close>: nothing for an empty collection; otherwise the
  years from 1900 to the feed's \<^verbatim>\<open>default_year\<close>, or to the current UTC year
  (the parameter \<open>now\<close>) when the feed gives none.
\<close>

definition stationActivitySeries ::
  "station list \<Rightarrow> int option \<Rightarrow> int \<Rightarrow> series_entry list" where
  "stationActivitySeries stations default_year now =
     (if length stations = 0 then []
      else
        let startYear = 1900;
            endYear = (case default_year of Some d \<Rightarrow> d | None \<Rightarrow> now);
            total' = int (length stations)
        in series_loop stations total' startYear endYear [])"

section \<open>Vocabulary of the properties\<close>

text \<open>
  Substring containment as the specification words it: the query occurs
  somewhere inside the text.
\<close>

definition is_substring :: "string \<Rightarrow> string \<Rightarrow> bool" where
  "is_substring q s = (\<exists>p r. s = p @ q @ r)"

text \<open>
  A display field as the data model has it: a string, or a falsy value standing
  for a missing one. \<open>field_text\<close> is the text it contributes to a search.
\<close>

fun text_or_falsy :: "jsval \<Rightarrow> bool" where
  "text_or_falsy (JStr s) = True"
| "text_or_falsy v = (truthy v = False)"

fun field_text :: "jsval \<Rightarrow> string" where
  "field_text (JStr s) = s"
| "field_text v = []"

definition text_fields :: "station \<Rightarrow> bool" where
  "text_fields s =
     (text_or_falsy (station_id s) \<and> text_or_falsy (name s) \<and> text_or_falsy (country s))"

text \<open>The folded text of a field, as the filter compares it.\<close>

definition folded :: "jsval \<Rightarrow> string" where
  "folded v = toLowerCase (field_text v)"

section \<open>Properties of the status classifier\<close>

lemma jsnum_le_JNum: "jsnum_le (ToNumber (JNum a)) (ToNumber (JNum b)) = (a \<le> b)"
  by simp

text \<open>
  With the type test resolved, \<open>isActive\<close> is the interval test between the
  effective bounds.
\<close>

lemma isActive_bounds:
  "isActive st y =
     ((case begin_year st of JNum b \<Rightarrow> b | _ \<Rightarrow> - 9999) \<le> y
      \<and> y \<le> (case end_year st of JNum e \<Rightarrow> e | _ \<Rightarrow> 9999))"
  by (cases "begin_year st"; cases "end_year st")
     (simp_all add: isActive_def jsnum_le_JNum del: ToNumber.simps)

lemma isActive_part_000_nullish:
  "nullish (begin_year st) \<Longrightarrow> nullish (end_year st) \<Longrightarrow>
   isActive_part_000 st y = (- 9999 \<le> y \<and> y \<le> 9999)"
  by (simp add: isActive_part_000_def coalesce_def jsnum_le_JNum del: ToNumber.simps)

text \<open>
  C2, as the code has it. A station with neither bound is active exactly for
  the years between the two sentinels, -9999 and 9999, in both revisions of
  \<open>isActive\<close>; beyond the sentinels it is inactive.
\<close>

theorem isActive_unbounded_between_sentinels:
  assumes "nullish (begin_year st)" and "nullish (end_year st)"
  shows "isActive st y = (- 9999 \<le> y \<and> y \<le> 9999)
         \<and> isActive_part_000 st y = (- 9999 \<le> y \<and> y \<le> 9999)"
proof
  from assms show "isActive st y = (- 9999 \<le> y \<and> y \<le> 9999)"
    by (cases "begin_year st"; cases "end_year st") (simp_all add: isActive_bounds)
  from assms show "isActive_part_000 st y = (- 9999 \<le> y \<and> y \<le> 9999)"
    by (rule isActive_part_000_nullish)
qed

theorem isActive_unbounded_between_sentinels_witness:
  "isActive \<lparr>station_id = JStr ''AAA'', name = JUndefined, country = JUndefined,
      begin_year = JUndefined, end_year = JNull\<rparr> 2024 = True
   \<and> isActive_part_000 \<lparr>station_id = JStr ''AAA'', name = JUndefined, country = JUndefined,
      begin_year = JUndefined, end_year = JNull\<rparr> 2024 = True"
  using isActive_unbounded_between_sentinels
    [of "\<lparr>station_id = JStr ''AAA'', name = JUndefined, country = JUndefined,
          begin_year = JUndefined, end_year = JNull\<rparr>" 2024]
  by simp

text \<open>
  C2 as stated fails at the year 10000: the station with neither bound is
  inactive there, in both revisions.
\<close>

theorem isActive_unbounded_counterexample:
  "isActive \<lparr>station_id = JStr ''AAA'', name = JUndefined, country = JUndefined,
      begin_year = JUndefined, end_year = JUndefined\<rparr> 10000 = False
   \<and> isActive_part_000 \<lparr>station_id = JStr ''AAA'', name = JUndefined, country = JUndefined,
      begin_year = JUndefined, end_year = JUndefined\<rparr> 10000 = False"
  by (simp add: isActive_def isActive_part_000_def coalesce_def)

text \<open>
  The current \<open>isActive\<close> reads a bound of any type other than number as a
  missing bound.
\<close>

lemma isActive_ignores_non_number:
  "typeof (begin_year st) \<noteq> ''number'' \<Longrightarrow>
     isActive st y = isActive (st\<lparr>begin_year := JUndefined\<rparr>) y"
  "typeof (end_year st) \<noteq> ''number'' \<Longrightarrow>
     isActive st y = isActive (st\<lparr>end_year := JUndefined\<rparr>) y"
  by (cases "begin_year st"; cases "end_year st"; simp add: isActive_bounds)+

lemma StringToNumber_unknown: "StringToNumber ''unknown'' = NaN"
  by (simp add: StringToNumber_def trim_def isStrWhiteSpaceChar_def parseNonDecimal_def
      parseDecimal_def parseUnsignedDecimal_def isDecimalDigit_def)

lemma StringToNumber_1995: "StringToNumber ''1995'' = Fin 1995"
  by (simp add: StringToNumber_def trim_def isStrWhiteSpaceChar_def parseNonDecimal_def
      parseDecimal_def parseUnsignedDecimal_def isDecimalDigit_def parseExponent_def
      scale10_def digitsValue_def digitValue_def toLowerChar_def)

text \<open>
  C3 at a string bound. The revision in part_000 keeps a begin year that is the
  string "unknown" and compares it: the comparison with not-a-number is false,
  so the station is inactive in 2000, while the same station without the bound
  is active, and the current \<open>isActive\<close> gives active for both. A begin year
  that is the string "1995" is compared as the number 1995, so the station is
  inactive in 1990.
\<close>

theorem isActive_part_000_string_bound:
  "isActive_part_000 \<lparr>station_id = JStr ''AAA'', name = JUndefined, country = JUndefined,
      begin_year = JStr ''unknown'', end_year = JUndefined\<rparr> 2000 = False
   \<and> isActive_part_000 \<lparr>station_id = JStr ''AAA'', name = JUndefined, country = JUndefined,
      begin_year = JUndefined, end_year = JUndefined\<rparr> 2000 = True
   \<and> isActive \<lparr>station_id = JStr ''AAA'', name = JUndefined, country = JUndefined,
      begin_year = JStr ''unknown'', end_year = JUndefined\<rparr> 2000 = True
   \<and> isActive_part_000 \<lparr>station_id = JStr ''AAA'', name = JUndefined, country = JUndefined,
      begin_year = JStr ''1995'', end_year = JUndefined\<rparr> 1990 = False"
  by (simp add: isActive_part_000_def isActive_def coalesce_def StringToNumber_unknown
      StringToNumber_1995)

text \<open>
  C4, as the code has it. When both bounds are numbers and the begin year is
  not after the end year, the station is active at its begin year and at its
  end year.
\<close>

theorem isActive_boundaries_inclusive:
  assumes "begin_year st = JNum b" and "end_year st = JNum e" and "b \<le> e"
  shows "isActive st b = True \<and> isActive st e = True"
  using assms by (simp add: isActive_bounds)

text \<open>The station AAA, 1990 to 2005: active at both ends, inactive just outside.\<close>

theorem isActive_boundaries_inclusive_witness:
  "isActive \<lparr>station_id = JStr ''AAA'', name = JUndefined, country = JUndefined,
      begin_year = JNum 1990, end_year = JNum 2005\<rparr> 1990 = True
   \<and> isActive \<lparr>station_id = JStr ''AAA'', name = JUndefined, country = JUndefined,
      begin_year = JNum 1990, end_year = JNum 2005\<rparr> 2005 = True
   \<and> isActive \<lparr>station_id = JStr ''AAA'', name = JUndefined, country = JUndefined,
      begin_year = JNum 1990, end_year = JNum 2005\<rparr> 1989 = False
   \<and> isActive \<lparr>station_id = JStr ''AAA'', name = JUndefined, country = JUndefined,
      begin_year = JNum 1990, end_year = JNum 2005\<rparr> 2006 = False"
  using isActive_boundaries_inclusive
    [of "\<lparr>station_id = JStr ''AAA'', name = JUndefined, country = JUndefined,
          begin_year = JNum 1990, end_year = JNum 2005\<rparr>" 1990 2005]
  by (simp add: isActive_bounds)

text \<open>
  C4 as stated fails for a station whose begin year is after its end year: it
  is not active at its own begin year.
\<close>

theorem isActive_boundaries_counterexample:
  "isActive \<lparr>station_id = JStr ''AAA'', name = JUndefined, country = JUndefined,
      begin_year = JNum 2000, end_year = JNum 1990\<rparr> 2000 = False"
  by (simp add: isActive_def)

text \<open>
  C5. A station whose begin year is after its end year is active in no year;
  \<open>isActive\<close> returns false there, it has no error to raise.
\<close>

theorem isActive_inverted_bounds:
  assumes "begin_year st = JNum b" and "end_year st = JNum e" and "e < b"
  shows "isActive st y = False"
  using assms by (simp add: isActive_bounds)

theorem isActive_inverted_bounds_witness:
  "isActive \<lparr>station_id = JStr ''AAA'', name = JUndefined, country = JUndefined,
      begin_year = JNum 2000, end_year = JNum 1990\<rparr> 1995 = False"
  using isActive_inverted_bounds
    [of "\<lparr>station_id = JStr ''AAA'', name = JUndefined, country = JUndefined,
          begin_year = JNum 2000, end_year = JNum 1990\<rparr>" 2000 1990 1995]
  by simp

section \<open>Properties of the collection filter\<close>

text \<open>\<open>includes_str\<close> decides substring containment.\<close>

lemma startsWith_iff: "startsWith s q \<longleftrightarrow> (\<exists>r. s = q @ r)"
  by (induction s q rule: startsWith.induct) auto

lemma includes_str_iff: "includes_str s q \<longleftrightarrow> is_substring q s"
proof (induction s)
  case Nil
  show ?case by (auto simp: is_substring_def)
next
  case (Cons c s)
  have "is_substring q (c # s) \<longleftrightarrow> (\<exists>r. c # s = q @ r) \<or> is_substring q s"
  proof
    assume "is_substring q (c # s)"
    then obtain p r where eq: "c # s = p @ q @ r" by (auto simp: is_substring_def)
    show "(\<exists>r. c # s = q @ r) \<or> is_substring q s"
    proof (cases p)
      case Nil
      with eq show ?thesis by auto
    next
      case (Cons a p')
      with eq have "s = p' @ q @ r" by simp
      then show ?thesis by (auto simp: is_substring_def)
    qed
  next
    assume "(\<exists>r. c # s = q @ r) \<or> is_substring q s"
    then show "is_substring q (c # s)"
    proof
      assume "\<exists>r. c # s = q @ r"
      then obtain r where "c # s = [] @ q @ r" by auto
      then show ?thesis unfolding is_substring_def by blast
    next
      assume "is_substring q s"
      then obtain p r where "s = p @ q @ r" by (auto simp: is_substring_def)
      then have "c # s = (c # p) @ q @ r" by simp
      then show ?thesis unfolding is_substring_def by blast
    qed
  qed
  with Cons show ?case by (simp add: startsWith_iff)
qed

text \<open>What \<open>filter_js\<close> returns when the callback does not throw.\<close>

lemma filter_js_all: "(\<And>s. s \<in> set xs \<Longrightarrow> p s = Inr True) \<Longrightarrow> filter_js p xs = Inr xs"
  by (induction xs) simp_all

lemma filter_js_total:
  "(\<And>s. s \<in> set xs \<Longrightarrow> p s = Inr (f s)) \<Longrightarrow> filter_js p xs = Inr (filter f xs)"
  by (induction xs) simp_all

lemma filter_js_Inr:
  "filter_js p xs = Inr ys \<Longrightarrow> ys = filter (\<lambda>s. p s = Inr True) xs"
  by (induction xs arbitrary: ys) (auto split: sum.splits if_splits)

lemma filter_js_idem:
  assumes "filter_js p xs = Inr ys" shows "filter_js p ys = Inr ys"
proof -
  from assms have "ys = filter (\<lambda>s. p s = Inr True) xs" by (rule filter_js_Inr)
  then have "\<And>s. s \<in> set ys \<Longrightarrow> p s = Inr True" by simp
  then show ?thesis by (rule filter_js_all)
qed

text \<open>
  On stations whose display fields are strings or missing, the callback never
  throws and the filter is the stable filter by substring containment.
\<close>

lemma lowerField_text: "text_or_falsy v \<Longrightarrow> lowerField v = Inr (folded v)"
  by (cases v) (auto simp: lowerField_def toLowerCase_def folded_def)

lemma matches_text:
  assumes "text_fields s"
  shows "matches qq sb s =
     Inr (if sb = ''station'' then is_substring qq (folded (station_id s))
          else if sb = ''name'' then is_substring qq (folded (name s))
          else if sb = ''country'' then is_substring qq (folded (country s))
          else is_substring qq (folded (station_id s))
               \<or> is_substring qq (folded (name s))
               \<or> is_substring qq (folded (country s)))"
  using assms by (simp add: matches_def text_fields_def lowerField_text includes_str_iff)

lemma is_substring_Nil: "is_substring [] s"
proof -
  have "s = [] @ [] @ s" by simp
  then show ?thesis unfolding is_substring_def by blast
qed

lemma filtered_text:
  assumes "\<forall>s \<in> set S. text_fields s"
  shows "filtered S q sb = Inr (filter (\<lambda>s. 
       if sb = ''station'' then is_substring (toLowerCase (trim q)) (folded (station_id s))
          else if sb = ''name'' then is_substring (toLowerCase (trim q)) (folded (name s))
          else if sb = ''country'' then is_substring (toLowerCase (trim q)) (folded (country s))
          else is_substring (toLowerCase (trim q)) (folded (station_id s))
               \<or> is_substring (toLowerCase (trim q)) (folded (name s))
               \<or> is_substring (toLowerCase (trim q)) (folded (country s))) S)"
proof (cases "toLowerCase (trim q) = []")
  case True
  then show ?thesis by (simp add: filtered_def is_substring_Nil)
next
  case False
  have "filter_js (matches (toLowerCase (trim q)) sb) S = Inr (filter (\<lambda>s. 
       if sb = ''station'' then is_substring (toLowerCase (trim q)) (folded (station_id s))
          else if sb = ''name'' then is_substring (toLowerCase (trim q)) (folded (name s))
          else if sb = ''country'' then is_substring (toLowerCase (trim q)) (folded (country s))
          else is_substring (toLowerCase (trim q)) (folded (station_id s))
               \<or> is_substring (toLowerCase (trim q)) (folded (name s))
               \<or> is_substring (toLowerCase (trim q)) (folded (country s))) S)"
    by (rule filter_js_total) (use assms in \<open>simp add: matches_text\<close>)
  with False show ?thesis by (simp add: filtered_def Let_def)
qed

lemma trim_blank: "trim ''  '' = []"
  by (simp add: trim_def isStrWhiteSpaceChar_def)

lemma toLowerCase_gha: "toLowerCase (trim ''gha'') = ''gha''"
  by (simp add: trim_def isStrWhiteSpaceChar_def toLowerCase_def toLowerChar_def)

lemma folded_examples:
  "folded (JStr ''X01'') = ''x01''" "folded (JStr ''Accra'') = ''accra''"
  "folded (JStr ''Ghana'') = ''ghana''" "folded (JStr ''K02'') = ''k02''"
  "folded (JStr ''Nairobi'') = ''nairobi''" "folded (JStr ''Kenya'') = ''kenya''"
  by (simp_all add: folded_def toLowerCase_def toLowerChar_def)

text \<open>
  C6. When the query is empty after trimming, the filter returns the collection
  itself, every station in its place, whatever the scope; the revision in part_000,
  which runs the callback on every station, returns the same list.
\<close>

theorem filtered_empty_query_identity:
  assumes "trim q = []"
  shows "filtered S q searchBy = Inr S \<and> filtered_part_000 S q = Inr S"
proof
  from assms show "filtered S q searchBy = Inr S"
    by (simp add: filtered_def toLowerCase_def)
  from assms have "filter_js (matches_part_000 []) S = Inr S"
    by (intro filter_js_all) (simp add: matches_part_000_def)
  with assms show "filtered_part_000 S q = Inr S"
    by (simp add: filtered_part_000_def toLowerCase_def)
qed

theorem filtered_empty_query_identity_witness:
  "trim ''  '' = []
   \<and> filtered [\<lparr>station_id = JStr ''X01'', name = JStr ''Accra'', country = JStr ''Ghana'',
                  begin_year = JUndefined, end_year = JUndefined\<rparr>,
                \<lparr>station_id = JStr ''K02'', name = JStr ''Nairobi'', country = JStr ''Kenya'',
                  begin_year = JNum 1950, end_year = JUndefined\<rparr>] ''  '' ''name''
       = Inr [\<lparr>station_id = JStr ''X01'', name = JStr ''Accra'', country = JStr ''Ghana'',
                  begin_year = JUndefined, end_year = JUndefined\<rparr>,
                \<lparr>station_id = JStr ''K02'', name = JStr ''Nairobi'', country = JStr ''Kenya'',
                  begin_year = JNum 1950, end_year = JUndefined\<rparr>]
   \<and> filtered_part_000 [\<lparr>station_id = JStr ''X01'', name = JStr ''Accra'', country = JStr ''Ghana'',
                  begin_year = JUndefined, end_year = JUndefined\<rparr>,
                \<lparr>station_id = JStr ''K02'', name = JStr ''Nairobi'', country = JStr ''Kenya'',
                  begin_year = JNum 1950, end_year = JUndefined\<rparr>] ''  ''
       = Inr [\<lparr>station_id = JStr ''X01'', name = JStr ''Accra'', country = JStr ''Ghana'',
                  begin_year = JUndefined, end_year = JUndefined\<rparr>,
                \<lparr>station_id = JStr ''K02'', name = JStr ''Nairobi'', country = JStr ''Kenya'',
                  begin_year = JNum 1950, end_year = JUndefined\<rparr>]"
  using filtered_empty_query_identity [OF trim_blank] trim_blank by simp

text \<open>
  C7. Filtering is idempotent: when the filter returns a list, filtering that
  list again with the same query and scope returns it unchanged. The filter does
  return a list on every collection whose display fields are strings or missing.
\<close>

theorem filtered_idempotent:
  "(filtered S q searchBy = Inr R \<longrightarrow> filtered R q searchBy = Inr R)
   \<and> ((\<forall>s \<in> set S. text_fields s) \<longrightarrow> (\<exists>R. filtered S q searchBy = Inr R))"
proof (intro conjI impI)
  assume r: "filtered S q searchBy = Inr R"
  show "filtered R q searchBy = Inr R"
  proof (cases "toLowerCase (trim q) = []")
    case True
    then show ?thesis by (simp add: filtered_def)
  next
    case False
    with r have "filter_js (matches (toLowerCase (trim q)) searchBy) S = Inr R"
      by (simp add: filtered_def Let_def)
    then have "filter_js (matches (toLowerCase (trim q)) searchBy) R = Inr R"
      by (rule filter_js_idem)
    with False show ?thesis by (simp add: filtered_def Let_def)
  qed
next
  assume "\<forall>s \<in> set S. text_fields s"
  then show "\<exists>R. filtered S q searchBy = Inr R"
    by (simp add: filtered_text)
qed

theorem filtered_idempotent_witness:
  "filtered [\<lparr>station_id = JStr ''X01'', name = JStr ''Accra'', country = JStr ''Ghana'',
                  begin_year = JUndefined, end_year = JUndefined\<rparr>,
                \<lparr>station_id = JStr ''K02'', name = JStr ''Nairobi'', country = JStr ''Kenya'',
                  begin_year = JNum 1950, end_year = JUndefined\<rparr>] ''gha'' ''all''
       = Inr [\<lparr>station_id = JStr ''X01'', name = JStr ''Accra'', country = JStr ''Ghana'',
                  begin_year = JUndefined, end_year = JUndefined\<rparr>]
   \<and> filtered [\<lparr>station_id = JStr ''X01'', name = JStr ''Accra'', country = JStr ''Ghana'',
                  begin_year = JUndefined, end_year = JUndefined\<rparr>] ''gha'' ''all''
       = Inr [\<lparr>station_id = JStr ''X01'', name = JStr ''Accra'', country = JStr ''Ghana'',
                  begin_year = JUndefined, end_year = JUndefined\<rparr>]"
proof -
  let ?x = "\<lparr>station_id = JStr ''X01'', name = JStr ''Accra'', country = JStr ''Ghana'',
                  begin_year = JUndefined, end_year = JUndefined\<rparr>"
  let ?k = "\<lparr>station_id = JStr ''K02'', name = JStr ''Nairobi'', country = JStr ''Kenya'',
                  begin_year = JNum 1950, end_year = JUndefined\<rparr>"
  have wf: "\<forall>s \<in> set [?x, ?k]. text_fields s"
    by (simp add: text_fields_def)
  have first: "filtered [?x, ?k] ''gha'' ''all'' = Inr [?x]"
    by (simp add: filtered_text [OF wf] toLowerCase_gha folded_examples
        includes_str_iff [symmetric])
  from filtered_idempotent [of "[?x, ?k]" "''gha''" "''all''" "[?x]"] first wf
  show ?thesis by simp
qed

text \<open>
  C8. Under the scope "station", "name" or "country" a station is kept exactly
  when the folded query is a substring of that one folded field, whatever the
  other two fields hold; under "all" it is kept when one of the three contains
  the query. The stations are those of the data model, with display fields that
  are strings or missing.
\<close>

theorem filtered_single_field_scope:
  assumes "\<forall>s \<in> set S. text_fields s"
  shows "filtered S q ''station'' =
           Inr (filter (\<lambda>s. is_substring (toLowerCase (trim q)) (folded (station_id s))) S)
       \<and> filtered S q ''name'' =
           Inr (filter (\<lambda>s. is_substring (toLowerCase (trim q)) (folded (name s))) S)
       \<and> filtered S q ''country'' =
           Inr (filter (\<lambda>s. is_substring (toLowerCase (trim q)) (folded (country s))) S)
       \<and> filtered S q ''all'' =
           Inr (filter (\<lambda>s. is_substring (toLowerCase (trim q)) (folded (station_id s))
                            \<or> is_substring (toLowerCase (trim q)) (folded (name s))
                            \<or> is_substring (toLowerCase (trim q)) (folded (country s))) S)"
  by (simp add: filtered_text [OF assms])

text \<open>The station X01, Accra, Ghana: "gha" finds it under "all", not under "station".\<close>

theorem filtered_single_field_scope_witness:
  "filtered [\<lparr>station_id = JStr ''X01'', name = JStr ''Accra'', country = JStr ''Ghana'',
                  begin_year = JUndefined, end_year = JUndefined\<rparr>] ''gha'' ''all''
       = Inr [\<lparr>station_id = JStr ''X01'', name = JStr ''Accra'', country = JStr ''Ghana'',
                  begin_year = JUndefined, end_year = JUndefined\<rparr>]
   \<and> filtered [\<lparr>station_id = JStr ''X01'', name = JStr ''Accra'', country = JStr ''Ghana'',
                  begin_year = JUndefined, end_year = JUndefined\<rparr>] ''gha'' ''station'' = Inr []"
proof -
  let ?x = "\<lparr>station_id = JStr ''X01'', name = JStr ''Accra'', country = JStr ''Ghana'',
                  begin_year = JUndefined, end_year = JUndefined\<rparr>"
  have wf: "\<forall>s \<in> set [?x]. text_fields s"
    by (simp add: text_fields_def)
  from filtered_single_field_scope [OF wf, of "''gha''"]
  show ?thesis
    by (simp add: toLowerCase_gha folded_examples includes_str_iff [symmetric])
qed

section \<open>Properties of the aggregator\<close>

text \<open>The year loop appends one entry per year from \<open>y\<close> to \<open>endYear\<close>, ascending.\<close>

lemma series_loop_eq:
  "series_loop S t y e acc =
     acc @ map (\<lambda>y. \<lparr>active = activeCountForYear S y, inactive = t - activeCountForYear S y,
                      total = t, year = y\<rparr>) [y..e]"
proof (induction S t y e acc rule: series_loop.induct)
  case (1 S t y e acc)
  show ?case
  proof (cases "y \<le> e")
    case True
    then have "[y..e] = y # [y + 1..e]" by (simp add: upto_rec1)
    with True 1 show ?thesis by (subst series_loop.simps) (simp add: Let_def)
  next
    case False
    then show ?thesis by (subst series_loop.simps) simp
  qed
qed

lemma activeCountForYear_Nil: "activeCountForYear [] y = 0"
  by (simp add: activeCountForYear_def)

text \<open>The inline test of \<open>activeCountForYear\<close> counts the stations \<open>isActive\<close> accepts.\<close>

lemma activeCountForYear_loop_eq:
  "activeCountForYear_loop S y a = a + int (length (filter (\<lambda>s. isActive s y) S))"
  by (induction S arbitrary: a) (simp_all add: isActive_def Let_def)

lemma activeCountForYear_isActive:
  "activeCountForYear S y = int (length (filter (\<lambda>s. isActive s y) S))"
  by (simp add: activeCountForYear_def activeCountForYear_loop_eq)

text \<open>For a collection that is not empty the series has one entry per year, ascending.\<close>

lemma stationActivitySeries_years:
  "S \<noteq> [] \<Longrightarrow>
   map year (stationActivitySeries S dy now) =
     [1900..(case dy of Some d \<Rightarrow> d | None \<Rightarrow> now)]"
  by (simp add: stationActivitySeries_def series_loop_eq Let_def o_def)

lemma upto_1900_1901: "[1900..1901] = [1900, 1901::int]"
  by (simp add: upto_rec1)

text \<open>
  C1, as the code has it. For an empty collection the series is empty, whatever
  the end year: the test on the collection's length returns before the year
  loop. The loop alone, run on an empty collection, gives one zero entry per
  year from 1900 to the end year.
\<close>

theorem series_empty_collection:
  "stationActivitySeries [] dy now = []
   \<and> series_loop [] 0 1900 e [] =
       map (\<lambda>y. \<lparr>active = 0, inactive = 0, total = 0, year = y\<rparr>) [1900..e]"
  by (simp add: stationActivitySeries_def series_loop_eq activeCountForYear_Nil)

text \<open>
  C1 as stated fails at the end year 1901: the series of the empty collection
  has no entry, not the two zero entries for 1900 and 1901.
\<close>

theorem series_empty_counterexample:
  "stationActivitySeries [] (Some 1901) 1901 = []
   \<and> stationActivitySeries [] (Some 1901) 1901 \<noteq>
       [\<lparr>active = 0, inactive = 0, total = 0, year = 1900\<rparr>,
        \<lparr>active = 0, inactive = 0, total = 0, year = 1901\<rparr>]"
  by (simp add: stationActivitySeries_def)

text \<open>
  C9. In every entry of the series, active plus inactive is the total, the
  total is the size of the collection, and inactive is the total minus active.
\<close>

theorem series_entry_totals:
  "\<forall>en \<in> set (stationActivitySeries S dy now).
     active en + inactive en = total en \<and> total en = int (length S)
     \<and> inactive en = total en - active en"
  by (auto simp: stationActivitySeries_def series_loop_eq Let_def)

theorem series_entry_totals_witness:
  "stationActivitySeries [\<lparr>station_id = JStr ''AAA'', name = JUndefined, country = JUndefined,
      begin_year = JNum 1901, end_year = JNum 2005\<rparr>] (Some 1901) 2026 =
     [\<lparr>active = 0, inactive = 1, total = 1, year = 1900\<rparr>,
      \<lparr>active = 1, inactive = 0, total = 1, year = 1901\<rparr>]
   \<and> active \<lparr>active = 0, inactive = 1, total = 1, year = 1900\<rparr>
       + inactive \<lparr>active = 0, inactive = 1, total = 1, year = 1900\<rparr>
       = total \<lparr>active = 0, inactive = 1, total = 1, year = 1900\<rparr>
   \<and> active \<lparr>active = 1, inactive = 0, total = 1, year = 1901\<rparr>
       + inactive \<lparr>active = 1, inactive = 0, total = 1, year = 1901\<rparr>
       = total \<lparr>active = 1, inactive = 0, total = 1, year = 1901\<rparr>"
proof -
  let ?S = "[\<lparr>station_id = JStr ''AAA'', name = JUndefined, country = JUndefined,
      begin_year = JNum 1901, end_year = JNum 2005\<rparr>]"
  have eq: "stationActivitySeries ?S (Some 1901) 2026 =
     [\<lparr>active = 0, inactive = 1, total = 1, year = 1900\<rparr>,
      \<lparr>active = 1, inactive = 0, total = 1, year = 1901\<rparr>]"
    by (simp add: stationActivitySeries_def series_loop_eq upto_1900_1901 activeCountForYear_def)
  from series_entry_totals [of ?S "Some 1901" 2026] eq show ?thesis by simp
qed

section \<open>Properties of the counts\<close>

lemma count_loop_eq: "count_loop p fs a = a + int (length (filter p fs))"
  by (induction fs arbitrary: a) simp_all

lemma counts_with_zero:
  "fs = [] \<or> y = None \<or> y = Some 0 \<Longrightarrow>
   counts_with f fs y = \<lparr>active = 0, inactive = 0, total = int (length fs)\<rparr>"
  by (auto simp: counts_with_def falsy_year_def)

lemma counts_with_year:
  "fs \<noteq> [] \<Longrightarrow> y \<noteq> 0 \<Longrightarrow>
   counts_with f fs (Some y) =
     \<lparr>active = int (length (filter (\<lambda>s. f s y) fs)),
      inactive = int (length fs) - int (length (filter (\<lambda>s. f s y) fs)),
      total = int (length fs)\<rparr>"
  by (simp add: counts_with_def falsy_year_def count_loop_eq Let_def)

text \<open>
  C10. With no selected year, with the year 0, or with an empty filtered
  collection, the counts are zero active, zero inactive and the size of the
  filtered collection as total, in both revisions; so for a non-empty
  collection without a year active plus inactive is 0 and differs from the
  total. With a non-zero year and a non-empty collection, active plus
  inactive is the total.
\<close>

theorem counts_edge_cases:
  "((fs1 = [] \<or> y1 = None \<or> y1 = Some 0) \<longrightarrow>
      counts fs1 y1 = \<lparr>active = 0, inactive = 0, total = int (length fs1)\<rparr>
      \<and> counts_part_000 fs1 y1 = \<lparr>active = 0, inactive = 0, total = int (length fs1)\<rparr>)
   \<and> ((fs2 \<noteq> [] \<and> (y2 = None \<or> y2 = Some 0)) \<longrightarrow>
      active (counts fs2 y2) + inactive (counts fs2 y2) = 0
      \<and> active (counts fs2 y2) + inactive (counts fs2 y2) \<noteq> total (counts fs2 y2)
      \<and> active (counts_part_000 fs2 y2) + inactive (counts_part_000 fs2 y2)
          \<noteq> total (counts_part_000 fs2 y2))
   \<and> ((fs3 \<noteq> [] \<and> y3 \<noteq> 0) \<longrightarrow>
      active (counts fs3 (Some y3)) + inactive (counts fs3 (Some y3))
        = total (counts fs3 (Some y3))
      \<and> total (counts fs3 (Some y3)) = int (length fs3)
      \<and> active (counts_part_000 fs3 (Some y3)) + inactive (counts_part_000 fs3 (Some y3))
        = total (counts_part_000 fs3 (Some y3)))"
proof (intro conjI impI)
  assume h: "fs1 = [] \<or> y1 = None \<or> y1 = Some 0"
  then show "counts fs1 y1 = \<lparr>active = 0, inactive = 0, total = int (length fs1)\<rparr>"
    unfolding counts_def by (rule counts_with_zero)
  from h show "counts_part_000 fs1 y1 = \<lparr>active = 0, inactive = 0, total = int (length fs1)\<rparr>"
    unfolding counts_part_000_def by (rule counts_with_zero)
next
  assume h: "fs2 \<noteq> [] \<and> (y2 = None \<or> y2 = Some 0)"
  then have z: "\<And>f. counts_with f fs2 y2 = \<lparr>active = 0, inactive = 0, total = int (length fs2)\<rparr>"
    by (intro counts_with_zero) simp
  from h have pos: "int (length fs2) \<noteq> 0" by simp
  show "active (counts fs2 y2) + inactive (counts fs2 y2) = 0"
    by (simp add: counts_def z)
  from pos show "active (counts fs2 y2) + inactive (counts fs2 y2) \<noteq> total (counts fs2 y2)"
    by (simp add: counts_def z)
  from pos show "active (counts_part_000 fs2 y2) + inactive (counts_part_000 fs2 y2)
          \<noteq> total (counts_part_000 fs2 y2)"
    by (simp add: counts_part_000_def z)
next
  assume h: "fs3 \<noteq> [] \<and> y3 \<noteq> 0"
  then show "active (counts fs3 (Some y3)) + inactive (counts fs3 (Some y3))
        = total (counts fs3 (Some y3))"
    by (simp add: counts_def counts_with_year)
  from h show "total (counts fs3 (Some y3)) = int (length fs3)"
    by (simp add: counts_def counts_with_year)
  from h show "active (counts_part_000 fs3 (Some y3)) + inactive (counts_part_000 fs3 (Some y3))
        = total (counts_part_000 fs3 (Some y3))"
    by (simp add: counts_part_000_def counts_with_year)
qed

theorem counts_edge_cases_witness:
  "counts [] (Some 2000) = \<lparr>active = 0, inactive = 0, total = 0\<rparr>
   \<and> active (counts [\<lparr>station_id = JStr ''AAA'', name = JUndefined, country = JUndefined,
                begin_year = JNum 1990, end_year = JNum 2005\<rparr>] None)
     + inactive (counts [\<lparr>station_id = JStr ''AAA'', name = JUndefined, country = JUndefined,
                begin_year = JNum 1990, end_year = JNum 2005\<rparr>] None)
     \<noteq> total (counts [\<lparr>station_id = JStr ''AAA'', name = JUndefined, country = JUndefined,
                begin_year = JNum 1990, end_year = JNum 2005\<rparr>] None)
   \<and> active (counts [\<lparr>station_id = JStr ''AAA'', name = JUndefined, country = JUndefined,
                begin_year = JNum 1990, end_year = JNum 2005\<rparr>] (Some 2000))
     + inactive (counts [\<lparr>station_id = JStr ''AAA'', name = JUndefined, country = JUndefined,
                begin_year = JNum 1990, end_year = JNum 2005\<rparr>] (Some 2000))
     = total (counts [\<lparr>station_id = JStr ''AAA'', name = JUndefined, country = JUndefined,
                begin_year = JNum 1990, end_year = JNum 2005\<rparr>] (Some 2000))
   \<and> total (counts [\<lparr>station_id = JStr ''AAA'', name = JUndefined, country = JUndefined,
                begin_year = JNum 1990, end_year = JNum 2005\<rparr>] (Some 2000)) = 1"
  using counts_edge_cases
    [of "[]" "Some 2000"
        "[\<lparr>station_id = JStr ''AAA'', name = JUndefined, country = JUndefined,
            begin_year = JNum 1990, end_year = JNum 2005\<rparr>]" None
        "[\<lparr>station_id = JStr ''AAA'', name = JUndefined, country = JUndefined,
            begin_year = JNum 1990, end_year = JNum 2005\<rparr>]" 2000]
  by simp

end
